theory Spec2Isabelle
  imports Complex_Main "HOL-Library.Sublist"
begin

section \<open>Python values\<close>

text \<open>
  A Python float is a finite number, one of the two infinities, or not-a-number.
  \<open>Fin r\<close> stands for the double whose value is \<open>r\<close>; the constants the agent compares
  against (24, 1766, 2.4e6) are doubles exactly. Every comparison with \<open>NaN\<close> is false,
  and \<open>NaN\<close> is equal to nothing, itself included.
\<close>

datatype pyfloat = Fin real | PInf | NInf | NaN

fun py_lt :: "pyfloat \<Rightarrow> pyfloat \<Rightarrow> bool" where
  "py_lt NaN _ = False"
| "py_lt _ NaN = False"
| "py_lt (Fin a) (Fin b) = (a < b)"
| "py_lt (Fin _) PInf = True"
| "py_lt (Fin _) NInf = False"
| "py_lt PInf _ = False"
| "py_lt NInf NInf = False"
| "py_lt NInf _ = True"

definition py_gt :: "pyfloat \<Rightarrow> pyfloat \<Rightarrow> bool" where
  "py_gt a b = py_lt b a"

definition py_eq :: "pyfloat \<Rightarrow> pyfloat \<Rightarrow> bool" where
  "py_eq a b = (a \<noteq> NaN \<and> a = b)"

text \<open>\<^verbatim>\<open>x in xs\<close> on a list of numbers: some element compares equal.\<close>

definition py_in :: "pyfloat \<Rightarrow> pyfloat list \<Rightarrow> bool" where
  "py_in x xs = list_ex (py_eq x) xs"

text \<open>The exceptions the agent can meet. \<open>InvalidGain\<close> is the plain \<^verbatim>\<open>Exception\<close>
  that \<^verbatim>\<open>set_gain\<close> raises; \<open>RequestException\<close> and \<open>CsvError\<close> are the two classes
  that \<^verbatim>\<open>fetch_and_process_csv\<close> catches around the whole feed.\<close>

datatype pyerr =
    ValueError | TypeError | KeyError | IndexError | UnboundLocalError
  | OverflowError | OSError | InvalidGain | RequestException | CsvError

text \<open>JSON values, as the settings document holds them.\<close>

datatype jval =
    JNull | JBool bool | JInt int | JFloat pyfloat | JStr string
  | JList "jval list" | JObj "(string \<times> jval) list"

type_synonym settings = "string \<rightharpoonup> jval"

text \<open>
  A query parameter after \<^verbatim>\<open>param_data_to_dict\<close>: the text of a single-valued key, a
  boolean where that text was true/false, or the list of texts of a repeated key.
\<close>

datatype qval = QStr string | QBool bool | QList "string list"

fun jval_of_qval :: "qval \<Rightarrow> jval" where
  "jval_of_qval (QStr s) = JStr s"
| "jval_of_qval (QBool b) = JBool b"
| "jval_of_qval (QList xs) = JList (map JStr xs)"

text \<open>
  The builtins \<^verbatim>\<open>float(str)\<close> and \<^verbatim>\<open>int(str)\<close> (\<open>None\<close> is their ValueError) and the
  chain \<^verbatim>\<open>datetime.fromtimestamp\<close>, \<^verbatim>\<open>astimezone\<close>, \<^verbatim>\<open>strftime\<close> that turns an epoch in
  milliseconds into the UTC and local stamps are library code. They are parameters of
  the model: every theorem below holds for whatever they compute.
\<close>

record builtins =
  float_str :: "string \<Rightarrow> pyfloat option"
  int_str :: "string \<Rightarrow> int option"
  timestamps :: "int \<Rightarrow> pyerr + (string \<times> string)"

text \<open>\<^verbatim>\<open>float(v)\<close> and \<^verbatim>\<open>int(v)\<close> on a query parameter: a boolean is 1 or 0, a list is a
  TypeError.\<close>

fun to_float :: "builtins \<Rightarrow> qval \<Rightarrow> pyerr + pyfloat" where
  "to_float B (QStr s) = (case float_str B s of None \<Rightarrow> Inl ValueError | Some f \<Rightarrow> Inr f)"
| "to_float B (QBool b) = Inr (Fin (if b then 1 else 0))"
| "to_float B (QList xs) = Inl TypeError"

fun to_int :: "builtins \<Rightarrow> qval \<Rightarrow> pyerr + int" where
  "to_int B (QStr s) = (case int_str B s of None \<Rightarrow> Inl ValueError | Some i \<Rightarrow> Inr i)"
| "to_int B (QBool b) = Inr (if b then 1 else 0)"
| "to_int B (QList xs) = Inl TypeError"

text \<open>\<^verbatim>\<open>str(n)\<close> for an integer.\<close>

definition digit_char :: "nat \<Rightarrow> char" where
  "digit_char d = char_of (48 + d)"

fun str_nat :: "nat \<Rightarrow> string" where
  "str_nat n = (if n < 10 then [digit_char n] else str_nat (n div 10) @ [digit_char (n mod 10)])"

declare str_nat.simps [simp del]

definition str_int :: "int \<Rightarrow> string" where
  "str_int i = (if i < 0 then CHR ''-'' # str_nat (nat (- i)) else str_nat (nat i))"

section \<open>The settings store client (krakensdr\_control.py)\<close>

text \<open>
  The state of a \<^verbatim>\<open>KrakenSDRControl\<close> object and of the file it edits: \<open>disk\<close> is the
  document in settings.json (\<open>None\<close> when the file is missing, unreadable or not
  well-formed JSON, so that reading raises; a file whose JSON is not an object is outside
  the model), \<open>staged\<close> is \<^verbatim>\<open>self.settings\<close>, \<open>written\<close> lists the
  documents written so far, oldest first, and \<open>writable\<close> says whether opening the
  file for writing succeeds.
\<close>

record kraken =
  disk :: "settings option"
  staged :: "settings option"
  written :: "settings list"
  writable :: bool

definition valid_gains :: "pyfloat list" where
  "valid_gains = map Fin [0, 0.9, 1.4, 2.7, 3.7, 7.7, 8.7, 12.5, 14.4, 15.7, 16.6, 19.7,
     20.7, 22.9, 25.4, 28.0, 29.7, 32.8, 33.8, 36.4, 37.2, 38.6, 40.2, 42.1, 43.4, 43.9,
     44.5, 48.0, 49.6]"

definition get_config :: "kraken \<Rightarrow> pyerr + settings" where
  "get_config st = (case disk st of None \<Rightarrow> Inl OSError | Some d \<Rightarrow> Inr d)"

text \<open>A method returns the exception it raised, if any, and the state it left.\<close>

definition save_config :: "settings \<Rightarrow> kraken \<Rightarrow> pyerr option \<times> kraken" where
  "save_config new_config st =
     (if writable st
      then (None, st\<lparr>disk := Some new_config, written := written st @ [new_config]\<rparr>)
      else (Some OSError, st))"

text \<open>
  \<^verbatim>\<open>update_value\<close>. The assignment \<^verbatim>\<open>settings[key] = new_value\<close> changes the staged
  dictionary itself when there is one, so a failed write leaves the new value staged.
\<close>

definition update_value :: "string \<Rightarrow> jval \<Rightarrow> bool \<Rightarrow> kraken \<Rightarrow> pyerr option \<times> kraken" where
  "update_value key new_value save_file st =
     (case (case staged st of None \<Rightarrow> get_config st | Some s \<Rightarrow> Inr s) of
        Inl e \<Rightarrow> (Some e, st)
      | Inr settings \<Rightarrow>
          let settings' = settings(key \<mapsto> new_value);
              st1 = (case staged st of None \<Rightarrow> st | Some _ \<Rightarrow> st\<lparr>staged := Some settings'\<rparr>)
          in if save_file
             then (case save_config settings' st1 of
                     (None, st2) \<Rightarrow> (None, st2\<lparr>staged := None\<rparr>)
                   | (Some e, st2) \<Rightarrow> (Some e, st2))
             else (None, st1\<lparr>staged := Some settings'\<rparr>))"

definition optimize_short_bursts :: "jval \<Rightarrow> bool \<Rightarrow> kraken \<Rightarrow> pyerr option \<times> kraken" where
  "optimize_short_bursts new_state save_file = update_value ''en_optimize_short_bursts'' new_state save_file"

definition set_frequency :: "pyfloat \<Rightarrow> bool \<Rightarrow> kraken \<Rightarrow> pyerr option \<times> kraken" where
  "set_frequency new_frequency_mhz save_file = update_value ''center_freq'' (JFloat new_frequency_mhz) save_file"

text \<open>\<^verbatim>\<open>set_output_vfo(self, vfo_number, vfo, save_file=True)\<close>: two required arguments,
  of which only the second is stored.\<close>

definition set_output_vfo :: "jval \<Rightarrow> jval \<Rightarrow> bool \<Rightarrow> kraken \<Rightarrow> pyerr option \<times> kraken" where
  "set_output_vfo vfo_number vfo save_file = update_value ''output_vfo'' vfo save_file"

definition set_vfo_frequency :: "int \<Rightarrow> pyfloat \<Rightarrow> bool \<Rightarrow> kraken \<Rightarrow> pyerr option \<times> kraken" where
  "set_vfo_frequency vfo_number frequency save_file =
     update_value (''vfo_freq_'' @ str_int vfo_number) (JFloat frequency) save_file"

definition set_vfo_bandwidth :: "int \<Rightarrow> pyfloat \<Rightarrow> bool \<Rightarrow> kraken \<Rightarrow> pyerr option \<times> kraken" where
  "set_vfo_bandwidth vfo_number bw save_file =
     update_value (''vfo_bw_'' @ str_int vfo_number) (JFloat bw) save_file"

definition set_gain :: "pyfloat \<Rightarrow> bool \<Rightarrow> kraken \<Rightarrow> pyerr option \<times> kraken" where
  "set_gain gain save_file st =
     (if \<not> py_in gain valid_gains then (Some InvalidGain, st)
      else update_value ''uniform_gain'' (JFloat gain) save_file st)"

text \<open>Sequencing of steps that may raise.\<close>

definition then_e :: "pyerr + 'a \<Rightarrow> ('a \<Rightarrow> pyerr + 'b) \<Rightarrow> pyerr + 'b" where
  "then_e r f = (case r of Inl e \<Rightarrow> Inl e | Inr x \<Rightarrow> f x)"

definition float_j :: "builtins \<Rightarrow> qval \<Rightarrow> pyerr + jval" where
  "float_j B v = (case to_float B v of Inl e \<Rightarrow> Inl e | Inr f \<Rightarrow> Inr (JFloat f))"

definition int_j :: "builtins \<Rightarrow> qval \<Rightarrow> pyerr + jval" where
  "int_j B v = (case to_int B v of Inl e \<Rightarrow> Inl e | Inr i \<Rightarrow> Inr (JInt i))"

definition raw_j :: "qval \<Rightarrow> pyerr + jval" where
  "raw_j v = Inr (jval_of_qval v)"

text \<open>\<^verbatim>\<open>settings[k] = conv(coordinates[k])\<close>: a missing key is a KeyError.\<close>

definition set_required :: "(qval \<Rightarrow> pyerr + jval) \<Rightarrow> (string \<rightharpoonup> qval) \<Rightarrow> string \<Rightarrow> settings \<Rightarrow> pyerr + settings" where
  "set_required conv coordinates k settings =
     (case coordinates k of None \<Rightarrow> Inl KeyError
      | Some v \<Rightarrow> (case conv v of Inl e \<Rightarrow> Inl e | Inr j \<Rightarrow> Inr (settings(k \<mapsto> j))))"

text \<open>\<^verbatim>\<open>if k in coordinates: settings[k] = conv(coordinates[k])\<close>.\<close>

definition set_optional :: "(qval \<Rightarrow> pyerr + jval) \<Rightarrow> (string \<rightharpoonup> qval) \<Rightarrow> string \<Rightarrow> settings \<Rightarrow> pyerr + settings" where
  "set_optional conv coordinates k settings =
     (case coordinates k of None \<Rightarrow> Inr settings
      | Some v \<Rightarrow> (case conv v of Inl e \<Rightarrow> Inl e | Inr j \<Rightarrow> Inr (settings(k \<mapsto> j))))"

definition coordinate_fields :: "builtins \<Rightarrow> (string \<rightharpoonup> qval) \<Rightarrow> settings \<Rightarrow> pyerr + settings" where
  "coordinate_fields B coordinates settings =
     then_e (set_required (float_j B) coordinates ''latitude'' settings) (\<lambda>s1.
     then_e (set_required (float_j B) coordinates ''longitude'' s1) (\<lambda>s2.
     then_e (set_optional (float_j B) coordinates ''heading'' s2) (\<lambda>s3.
     then_e (set_optional raw_j coordinates ''location_source'' s3) (\<lambda>s4.
     then_e (set_optional raw_j coordinates ''gps_fixed_heading'' s4) (\<lambda>s5.
     then_e (set_optional (int_j B) coordinates ''gps_min_speed'' s5) (\<lambda>s6.
     set_optional (int_j B) coordinates ''gps_min_speed_duration'' s6))))))"

text \<open>\<^verbatim>\<open>set_coordinates(self, coordinates)\<close>: reads the file, never the staged copy, and
  leaves the staged copy as it is.\<close>

definition set_coordinates :: "builtins \<Rightarrow> (string \<rightharpoonup> qval) \<Rightarrow> kraken \<Rightarrow> pyerr option \<times> kraken" where
  "set_coordinates B coordinates st =
     (case get_config st of
        Inl e \<Rightarrow> (Some e, st)
      | Inr settings \<Rightarrow>
          (case coordinate_fields B coordinates settings of
             Inl e \<Rightarrow> (Some e, st)
           | Inr settings' \<Rightarrow> save_config settings' st))"

section \<open>The DOA feed parser (fetch\_and\_process\_csv)\<close>

type_synonym pydict = "string \<rightharpoonup> jval"

definition base_fields :: "string list" where
  "base_fields = [''Epoch Time'', ''Max DOA Angle (Degrees)'', ''Confidence Value'',
     ''RSSI Power (dB)'', ''Channel Frequency (Hz)'', ''Antenna Arrangement'', ''Latency (ms)'',
     ''Station ID'', ''Latitude'', ''Longitude'', ''GPS Heading'', ''Compass Heading'',
     ''Main Heading Sensor Used'']"

definition reserved_fields :: "string list" where
  "reserved_fields = map (\<lambda>i. ''Reserved Field '' @ str_nat i) [14..<18]"

definition doa_fields :: "string list" where
  "doa_fields = map (\<lambda>i. ''DOA Power '' @ str_nat i) [0..<360]"

definition row_fields :: "string list" where
  "row_fields = base_fields @ reserved_fields @ doa_fields"

text \<open>\<^verbatim>\<open>base_data[k] = float(base_data[k])\<close> on a dictionary of texts and converted values.\<close>

definition text_of :: "pydict \<Rightarrow> string \<Rightarrow> pyerr + string" where
  "text_of base_data k =
     (case base_data k of None \<Rightarrow> Inl KeyError | Some (JStr s) \<Rightarrow> Inr s | Some _ \<Rightarrow> Inl TypeError)"

definition float_field :: "builtins \<Rightarrow> string \<Rightarrow> pydict \<Rightarrow> pyerr + pydict" where
  "float_field B k base_data =
     then_e (text_of base_data k) (\<lambda>s.
       case float_str B s of None \<Rightarrow> Inl ValueError | Some f \<Rightarrow> Inr (base_data(k \<mapsto> JFloat f)))"

text \<open>\<^verbatim>\<open>base_data["Compass Heading"] = float(base_data.get("Compass Heading", "NaN"))\<close>.\<close>

definition compass_field :: "builtins \<Rightarrow> pydict \<Rightarrow> pyerr + pydict" where
  "compass_field B base_data =
     then_e (case base_data ''Compass Heading'' of
               None \<Rightarrow> Inr ''NaN'' | Some (JStr s) \<Rightarrow> Inr s | Some _ \<Rightarrow> Inl TypeError) (\<lambda>s.
       case float_str B s of None \<Rightarrow> Inl ValueError
       | Some f \<Rightarrow> Inr (base_data(''Compass Heading'' \<mapsto> JFloat f)))"

text \<open>The epoch and the two stamps derived from it.\<close>

definition epoch_fields :: "builtins \<Rightarrow> pydict \<Rightarrow> pyerr + pydict" where
  "epoch_fields B base_data =
     then_e (text_of base_data ''Epoch Time'') (\<lambda>s.
       case int_str B s of None \<Rightarrow> Inl ValueError
       | Some ms \<Rightarrow>
           (case timestamps B ms of Inl e \<Rightarrow> Inl e
            | Inr (utc, loc) \<Rightarrow>
                Inr (base_data(''Epoch Time'' \<mapsto> JInt ms, ''utc_timestamp'' \<mapsto> JStr utc,
                               ''local_timestamp'' \<mapsto> JStr loc))))"

text \<open>The body of the inner \<^verbatim>\<open>try\<close>, in the order of the source.\<close>

definition convert_fields :: "builtins \<Rightarrow> pydict \<Rightarrow> pyerr + pydict" where
  "convert_fields B base_data =
     then_e (epoch_fields B base_data) (\<lambda>d0.
     then_e (float_field B ''Max DOA Angle (Degrees)'' d0) (\<lambda>d1.
     then_e (float_field B ''Confidence Value'' d1) (\<lambda>d2.
     then_e (float_field B ''RSSI Power (dB)'' d2) (\<lambda>d3.
     then_e (float_field B ''Channel Frequency (Hz)'' d3) (\<lambda>d4.
     then_e (float_field B ''Latency (ms)'' d4) (\<lambda>d5.
     then_e (float_field B ''Latitude'' d5) (\<lambda>d6.
     then_e (float_field B ''Longitude'' d6) (\<lambda>d7.
     then_e (float_field B ''GPS Heading'' d7) (\<lambda>d8.
     compass_field B d8)))))))))"

text \<open>The comprehension that builds \<^verbatim>\<open>doa_output\<close>, degree by degree; it stands outside
  the inner \<^verbatim>\<open>try\<close>.\<close>

fun doa_entries :: "builtins \<Rightarrow> string list \<Rightarrow> nat list \<Rightarrow> pyerr + (string \<times> jval) list" where
  "doa_entries B row [] = Inr []"
| "doa_entries B row (degree # ds) =
     (let i = length base_fields + length reserved_fields + degree in
      if i < length row
      then (case float_str B (row ! i) of
              None \<Rightarrow> Inl ValueError
            | Some f \<Rightarrow> (case doa_entries B row ds of
                          Inl e \<Rightarrow> Inl e
                        | Inr out \<Rightarrow> Inr ((str_nat degree, JFloat f) # out)))
      else Inl IndexError)"

text \<open>The comprehension \<^verbatim>\<open>{fields[i]: row[i] for i in range(len(base_fields))}\<close>.\<close>

definition base_data_of :: "string list \<Rightarrow> pydict" where
  "base_data_of row =
     map_of (map (\<lambda>i. (row_fields ! i, JStr (row ! i))) [0..<length base_fields])"

text \<open>One pass of the loop body: the row is skipped (too short, or a ValueError in the
  inner \<^verbatim>\<open>try\<close>), appended as a record, or an exception leaves the loop.\<close>

datatype row_result = Skipped | Appended pydict | Raised pyerr

definition process_row :: "builtins \<Rightarrow> string list \<Rightarrow> row_result" where
  "process_row B row =
     (if length row < length row_fields then Skipped
      else
        let base_data = base_data_of row
        in case convert_fields B base_data of
             Inl ValueError \<Rightarrow> Skipped
           | Inl e \<Rightarrow> Raised e
           | Inr base_data' \<Rightarrow>
               (case doa_entries B row [0..<360] of
                  Inl e \<Rightarrow> Raised e
                | Inr doa_output \<Rightarrow> Appended (base_data'(''DOA Output'' \<mapsto> JObj doa_output))))"

text \<open>
  What \<^verbatim>\<open>csv.reader\<close> yields: rows of texts, or the point where it raises
  \<^verbatim>\<open>csv.Error\<close>. What the GET yields: a failure (no connection, or an error status
  turned into an exception by \<^verbatim>\<open>raise_for_status\<close>) or a body.
\<close>

datatype csv_item = Row "string list" | BadCsv

datatype fetched = RequestFailed | Body "csv_item list"

fun process_rows :: "builtins \<Rightarrow> csv_item list \<Rightarrow> pydict list \<Rightarrow> pyerr + pydict list" where
  "process_rows B [] rows = Inr rows"
| "process_rows B (BadCsv # rest) rows = Inl CsvError"
| "process_rows B (Row row # rest) rows =
     (case process_row B row of
        Skipped \<Rightarrow> process_rows B rest rows
      | Appended d \<Rightarrow> process_rows B rest (rows @ [d])
      | Raised e \<Rightarrow> Inl e)"

definition fetch_and_process_csv :: "builtins \<Rightarrow> fetched \<Rightarrow> pyerr + pydict list" where
  "fetch_and_process_csv B feed =
     (case feed of
        RequestFailed \<Rightarrow> Inr []
      | Body items \<Rightarrow>
          (case process_rows B items [] of
             Inl RequestException \<Rightarrow> Inr []
           | Inl CsvError \<Rightarrow> Inr []
           | Inl e \<Rightarrow> Inl e
           | Inr rows \<Rightarrow> Inr rows))"

section \<open>The request router (AgentRequestHandler.do\_GET)\<close>

text \<open>\<^verbatim>\<open>str.upper\<close> on ASCII text.\<close>

definition upper_char :: "char \<Rightarrow> char" where
  "upper_char c = (let n = (of_char c :: nat) in if 97 \<le> n \<and> n \<le> 122 then char_of (n - 32) else c)"

definition upper :: "string \<Rightarrow> string" where
  "upper s = map upper_char s"

text \<open>\<^verbatim>\<open>param_data_to_dict\<close>, applied to what \<^verbatim>\<open>parse_qs\<close> returned: a dictionary from each
  key to the list of its values.\<close>

definition unwrap :: "string list \<Rightarrow> qval" where
  "unwrap vs =
     (case vs of
        [v] \<Rightarrow> (if upper v = ''TRUE'' then QBool True
                else if upper v = ''FALSE'' then QBool False
                else QStr v)
      | _ \<Rightarrow> QList vs)"

definition param_data_to_dict :: "(string \<rightharpoonup> string list) \<Rightarrow> (string \<rightharpoonup> qval)" where
  "param_data_to_dict param_data = (\<lambda>cur_key. map_option unwrap (param_data cur_key))"

text \<open>
  What the handler sends: a JSON envelope with its \<open>errcode\<close> and the extra field it
  carries, an HTML page with its status, the redirect to /index.html, or nothing.
  The text of \<open>errmsg\<close> is not modelled.
\<close>

datatype payload = NoPayload | SettingsDoc settings | DoaInfo "pydict option"

datatype response = Json int payload | Html nat | Redirect | Silent

text \<open>\<^verbatim>\<open>return_json_dict(s, build_base_dict())\<close> after a method that returned, and
  \<^verbatim>\<open>return_error_json(s, 3, ...)\<close> after one that raised.\<close>

definition reply3 :: "pyerr option \<times> kraken \<Rightarrow> response \<times> kraken" where
  "reply3 r = (case r of (None, st) \<Rightarrow> (Json 0 NoPayload, st) | (Some e, st) \<Rightarrow> (Json 3 NoPayload, st))"

text \<open>Reading a local variable of \<^verbatim>\<open>do_GET\<close>: unbound on every path that has not
  assigned it.\<close>

definition load_local :: "'a option \<Rightarrow> pyerr + 'a" where
  "load_local v = (case v of None \<Rightarrow> Inl UnboundLocalError | Some x \<Rightarrow> Inr x)"

text \<open>A call of \<^verbatim>\<open>set_output_vfo\<close> with positional arguments: the method binds
  \<^verbatim>\<open>vfo_number\<close>, \<^verbatim>\<open>vfo\<close> and optionally \<^verbatim>\<open>save_file\<close>; any other number of
  arguments is a TypeError raised before its body runs.\<close>

fun truthy :: "jval \<Rightarrow> bool" where
  "truthy JNull = False"
| "truthy (JBool b) = b"
| "truthy (JInt i) = (i \<noteq> 0)"
| "truthy (JFloat f) = (f \<noteq> Fin 0)"
| "truthy (JStr s) = (s \<noteq> [])"
| "truthy (JList xs) = (xs \<noteq> [])"
| "truthy (JObj kvs) = (kvs \<noteq> [])"

definition call_set_output_vfo :: "jval list \<Rightarrow> kraken \<Rightarrow> pyerr option \<times> kraken" where
  "call_set_output_vfo args st =
     (case args of
        [vfo_number, vfo] \<Rightarrow> set_output_vfo vfo_number vfo True st
      | [vfo_number, vfo, save_file] \<Rightarrow> set_output_vfo vfo_number vfo (truthy save_file) st
      | _ \<Rightarrow> (Some TypeError, st))"

text \<open>The branches of \<^verbatim>\<open>do_GET\<close>, one definition each, on the parameters
  \<^verbatim>\<open>param_data_to_dict(req.query)\<close>.\<close>

definition api_get_config :: "kraken \<Rightarrow> response \<times> kraken" where
  "api_get_config st =
     (case get_config st of
        Inl e \<Rightarrow> (Json 1 NoPayload, st)
      | Inr settings \<Rightarrow> (Json 0 (SettingsDoc settings), st))"

definition api_set_frequency :: "builtins \<Rightarrow> (string \<rightharpoonup> qval) \<Rightarrow> kraken \<Rightarrow> response \<times> kraken" where
  "api_set_frequency B param_data st =
     (case param_data ''freq'' of
        None \<Rightarrow> (Json 1 NoPayload, st)
      | Some fv \<Rightarrow>
          (case to_float B fv of
             Inl e \<Rightarrow> (Json 3 NoPayload, st)
           | Inr new_freq \<Rightarrow>
               if py_lt new_freq (Fin 24.0) \<or> py_gt new_freq (Fin 1766.0)
               then (Json 1 NoPayload, st)
               else
                 (case param_data ''gain'' of
                    None \<Rightarrow> reply3 (set_frequency new_freq True st)
                  | Some gv \<Rightarrow>
                      (case to_float B gv of
                         Inl e \<Rightarrow> (Json 3 NoPayload, st)
                       | Inr gain \<Rightarrow>
                           (case set_frequency new_freq False st of
                              (Some e, st1) \<Rightarrow> (Json 3 NoPayload, st1)
                            | (None, st1) \<Rightarrow> reply3 (set_gain gain True st1))))))"

text \<open>
  The parser returns a list or raises, never \<^verbatim>\<open>None\<close>, so the test
  \<^verbatim>\<open>doa_info is not None\<close> always holds and the \<^verbatim>\<open>else\<close> that would answer a null
  doa\_info is never taken. \<^verbatim>\<open>doa_info[0]\<close> is an IndexError on an empty list; it is
  raised outside the branch's own \<^verbatim>\<open>try\<close> and caught by the handler's last
  \<^verbatim>\<open>except\<close>, which answers 5.
\<close>

definition api_get_doa :: "builtins \<Rightarrow> fetched \<Rightarrow> kraken \<Rightarrow> response \<times> kraken" where
  "api_get_doa B feed st =
     (case fetch_and_process_csv B feed of
        Inl e \<Rightarrow> (Json 1 NoPayload, st)
      | Inr doa_info \<Rightarrow>
          (case doa_info of
             [] \<Rightarrow> (Json 5 NoPayload, st)
           | first # _ \<Rightarrow> (Json 0 (DoaInfo (Some first)), st)))"

definition api_set_frequency_and_vfo :: "builtins \<Rightarrow> (string \<rightharpoonup> qval) \<Rightarrow> kraken \<Rightarrow> response \<times> kraken" where
  "api_set_frequency_and_vfo B param_data st =
     (case (param_data ''freq'', param_data ''vfo_index'', param_data ''vfo_freq'') of
        (Some fv, Some iv, Some vv) \<Rightarrow>
          (case to_float B fv of
             Inl e \<Rightarrow> (Json 3 NoPayload, st)
           | Inr new_freq \<Rightarrow>
               if py_lt new_freq (Fin 24.0) \<or> py_gt new_freq (Fin 1766.0)
               then (Json 1 NoPayload, st)
               else
                 (case to_int B iv of
                    Inl e \<Rightarrow> (Json 3 NoPayload, st)
                  | Inr index \<Rightarrow>
                      (case to_float B vv of
                         Inl e \<Rightarrow> (Json 3 NoPayload, st)
                       | Inr vfo_freq \<Rightarrow>
                           if py_lt vfo_freq (Fin 24000000) \<or> py_gt vfo_freq (Fin 1766000000)
                           then (Json 1 NoPayload, st)
                           else
                             (case set_frequency new_freq False st of
                                (Some e, st1) \<Rightarrow> (Json 3 NoPayload, st1)
                              | (None, st1) \<Rightarrow> reply3 (set_vfo_frequency index vfo_freq True st1)))))
      | _ \<Rightarrow> (Json 1 NoPayload, st))"

definition api_set_gain :: "builtins \<Rightarrow> (string \<rightharpoonup> qval) \<Rightarrow> kraken \<Rightarrow> response \<times> kraken" where
  "api_set_gain B param_data st =
     (case param_data ''gain'' of
        None \<Rightarrow> (Json 1 NoPayload, st)
      | Some gv \<Rightarrow>
          (case to_float B gv of
             Inl e \<Rightarrow> (Json 3 NoPayload, st)
           | Inr gain \<Rightarrow> reply3 (set_gain gain True st)))"

text \<open>The call \<^verbatim>\<open>krakensdr.set_output_vfo(index)\<close> passes one argument.\<close>

definition api_set_output_vfo :: "builtins \<Rightarrow> (string \<rightharpoonup> qval) \<Rightarrow> kraken \<Rightarrow> response \<times> kraken" where
  "api_set_output_vfo B param_data st =
     (case param_data ''vfo_index'' of
        None \<Rightarrow> (Json 1 NoPayload, st)
      | Some iv \<Rightarrow>
          (case to_int B iv of
             Inl e \<Rightarrow> (Json 3 NoPayload, st)
           | Inr index \<Rightarrow> reply3 (call_set_output_vfo [JInt index] st)))"

definition api_en_optimize_short_bursts :: "(string \<rightharpoonup> qval) \<Rightarrow> kraken \<Rightarrow> response \<times> kraken" where
  "api_en_optimize_short_bursts param_data st =
     (case param_data ''state'' of
        None \<Rightarrow> (Json 1 NoPayload, st)
      | Some sv \<Rightarrow> reply3 (optimize_short_bursts (jval_of_qval sv) True st))"

definition api_set_vfo_frequency :: "builtins \<Rightarrow> (string \<rightharpoonup> qval) \<Rightarrow> kraken \<Rightarrow> response \<times> kraken" where
  "api_set_vfo_frequency B param_data st =
     (case (param_data ''vfo_index'', param_data ''vfo_freq'') of
        (Some iv, Some vv) \<Rightarrow>
          (case to_int B iv of
             Inl e \<Rightarrow> (Json 3 NoPayload, st)
           | Inr index \<Rightarrow>
               (case to_float B vv of
                  Inl e \<Rightarrow> (Json 3 NoPayload, st)
                | Inr freq \<Rightarrow>
                    if py_lt freq (Fin 24000000) \<or> py_gt freq (Fin 1766000000)
                    then (Json 1 NoPayload, st)
                    else reply3 (set_vfo_frequency index freq True st)))
      | _ \<Rightarrow> (Json 1 NoPayload, st))"

text \<open>
  The bandwidth branch passes \<^verbatim>\<open>freq\<close> to the setter. \<^verbatim>\<open>freq\<close> is a local variable of
  \<^verbatim>\<open>do_GET\<close> that only the \<^verbatim>\<open>set_vfo_frequency\<close> branch assigns, so on this path it is
  unbound. The test on the bandwidth rejects zero and values above 2.4e6 only.
\<close>

definition api_set_vfo_bandwidth :: "builtins \<Rightarrow> (string \<rightharpoonup> qval) \<Rightarrow> kraken \<Rightarrow> response \<times> kraken" where
  "api_set_vfo_bandwidth B param_data st =
     (case (param_data ''vfo_index'', param_data ''vfo_bw'') of
        (Some iv, Some bv) \<Rightarrow>
          (case to_int B iv of
             Inl e \<Rightarrow> (Json 3 NoPayload, st)
           | Inr index \<Rightarrow>
               (case to_float B bv of
                  Inl e \<Rightarrow> (Json 3 NoPayload, st)
                | Inr bw \<Rightarrow>
                    if py_eq bw (Fin 0) \<or> py_gt bw (Fin 2400000)
                    then (Json 1 NoPayload, st)
                    else
                      (let freq = (None :: pyfloat option) in
                       case load_local freq of
                         Inl e \<Rightarrow> (Json 3 NoPayload, st)
                       | Inr fq \<Rightarrow> reply3 (set_vfo_bandwidth index fq True st))))
      | _ \<Rightarrow> (Json 1 NoPayload, st))"

text \<open>
  The coordinates branch calls \<^verbatim>\<open>krakensdr.set_coordinates(index, param_data)\<close>.
  \<^verbatim>\<open>index\<close> is a local variable that other branches assign, unbound here; were it
  bound, the two arguments would not fit the one parameter of the method, a TypeError.
\<close>

definition api_set_coordinates :: "builtins \<Rightarrow> (string \<rightharpoonup> qval) \<Rightarrow> kraken \<Rightarrow> response \<times> kraken" where
  "api_set_coordinates B param_data st =
     (if param_data ''latitude'' = None \<or> param_data ''longitude'' = None
      then (Json 1 NoPayload, st)
      else
        (let index = (None :: int option) in
         case load_local index of
           Inl e \<Rightarrow> (Json 3 NoPayload, st)
         | Inr i \<Rightarrow> reply3 (Some TypeError, st)))"

text \<open>
  A GET request as the handler sees it: \<^verbatim>\<open>s.client_address\<close>, \<^verbatim>\<open>s.path\<close> (the request
  target, query string included), and what \<^verbatim>\<open>urlparse(s.path)\<close> gives: its path and the
  dictionary \<^verbatim>\<open>parse_qs\<close> makes of its query, or \<open>None\<close> when \<^verbatim>\<open>urlparse\<close> raises.
\<close>

record request =
  client_address :: "string list"
  path :: string
  url :: "(string \<times> (string \<rightharpoonup> string list)) option"

text \<open>
  \<^verbatim>\<open>do_GET\<close>, in the default configuration (without --debug-http, so that logging a
  request does nothing). The global \<^verbatim>\<open>html_dir\<close> is \<^verbatim>\<open>None\<close> and nothing assigns it, so the
  block that serves files is never entered. The branches are tried in the order of the source;
  a path that starts with /api/krakensdr/set\_frequency\_and\_vfo also starts with
  /api/krakensdr/set\_frequency and takes that earlier branch.
\<close>

definition do_GET :: "builtins \<Rightarrow> string list \<Rightarrow> fetched \<Rightarrow> request \<Rightarrow> kraken \<Rightarrow> response \<times> kraken" where
  "do_GET B allowedIPs feed s st =
     (if client_address s = [] then (Silent, st)
      else if allowedIPs \<noteq> [] \<and> hd (client_address s) \<notin> set allowedIPs then (Html 403, st)
      else
        (case url s of
           None \<Rightarrow> (Html 404, st)
         | Some (req_path, query) \<Rightarrow>
             let url_path = dropWhile (\<lambda>c. c = CHR ''/'' \<or> c = CHR ''.'') req_path;
                 param_data = param_data_to_dict query
             in if url_path = [] then (Redirect, st)
                else if path s = ''/api/krakensdr/get_config'' then api_get_config st
                else if prefix ''/api/krakensdr/set_frequency'' (path s)
                  then api_set_frequency B param_data st
                else if path s = ''/api/krakensdr/get_doa'' then api_get_doa B feed st
                else if prefix ''/api/krakensdr/set_frequency_and_vfo'' (path s)
                  then api_set_frequency_and_vfo B param_data st
                else if prefix ''/api/krakensdr/set_gain'' (path s)
                  then api_set_gain B param_data st
                else if prefix ''/api/krakensdr/set_output_vfo'' (path s)
                  then api_set_output_vfo B param_data st
                else if prefix ''/api/krakensdr/en_optimize_short_bursts'' (path s)
                  then api_en_optimize_short_bursts param_data st
                else if prefix ''/api/krakensdr/set_vfo_frequency'' (path s)
                  then api_set_vfo_frequency B param_data st
                else if prefix ''/api/krakensdr/set_vfo_bandwidth'' (path s)
                  then api_set_vfo_bandwidth B param_data st
                else if prefix ''/api/krakensdr/set_coordinates'' (path s)
                  then api_set_coordinates B param_data st
                else (Json 5 NoPayload, st)))"

section \<open>The allow-list and startup\<close>

definition is_digit :: "char \<Rightarrow> bool" where
  "is_digit c = (48 \<le> (of_char c :: nat) \<and> (of_char c :: nat) \<le> 57)"

text \<open>
  The pattern \<^verbatim>\<open>([0-9]{1,3}\.[0-9]{1,3}\.[0-9]{1,3}\.[0-9]{1,3})\<close>. A group of one to
  three digits followed by a dot matches at the head of a text exactly when the run of
  digits there has one to three digits and a dot follows it: giving digits back never
  helps, since the character after a shorter group is a digit. The last group takes
  up to three digits of the run.
\<close>

definition octet_dot :: "string \<Rightarrow> (string \<times> string) option" where
  "octet_dot s =
     (let ds = takeWhile is_digit s; rest = dropWhile is_digit s
      in if 1 \<le> length ds \<and> length ds \<le> 3 \<and> rest \<noteq> [] \<and> hd rest = CHR ''.''
         then Some (ds @ ''.'', tl rest) else None)"

definition match_ip_at :: "string \<Rightarrow> string option" where
  "match_ip_at s =
     (case octet_dot s of None \<Rightarrow> None
      | Some (a, s1) \<Rightarrow>
     (case octet_dot s1 of None \<Rightarrow> None
      | Some (b, s2) \<Rightarrow>
     (case octet_dot s2 of None \<Rightarrow> None
      | Some (c, s3) \<Rightarrow>
          (let d = take 3 (takeWhile is_digit s3)
           in if d = [] then None else Some (a @ b @ c @ d)))))"

text \<open>\<^verbatim>\<open>ippattern.search(ipStr).group(1)\<close>: the match at the leftmost position that has
  one; \<open>None\<close> where \<^verbatim>\<open>search\<close> finds nothing and \<^verbatim>\<open>.group\<close> raises.\<close>

fun ip_search :: "string \<Rightarrow> string option" where
  "ip_search [] = None"
| "ip_search (x # xs) =
     (case match_ip_at (x # xs) of Some m \<Rightarrow> Some m | None \<Rightarrow> ip_search xs)"

text \<open>\<^verbatim>\<open>str.split(',')\<close> and \<^verbatim>\<open>str.replace(' ', '')\<close>.\<close>

fun split_on :: "char \<Rightarrow> string \<Rightarrow> string list" where
  "split_on c [] = [[]]"
| "split_on c (x # xs) =
     (if x = c then [] # split_on c xs
      else (case split_on c xs of [] \<Rightarrow> [[x]] | p # ps \<Rightarrow> (x # p) # ps))"

definition remove_spaces :: "string \<Rightarrow> string" where
  "remove_spaces s = filter (\<lambda>c. c \<noteq> CHR '' '') s"

text \<open>How \<^verbatim>\<open>buildAllowedIPs\<close> ends: the process exits with a code, or the function
  returns a boolean and leaves the global \<^verbatim>\<open>allowedIPs\<close>.\<close>

datatype built = Exit nat | Returned bool "string list"

fun add_items :: "string list \<Rightarrow> string list \<Rightarrow> built" where
  "add_items [] allowedIPs = Returned True allowedIPs"
| "add_items (curItem # tmpList) allowedIPs =
     (case ip_search (remove_spaces curItem) of
        None \<Rightarrow> Exit 3
      | Some ipValue \<Rightarrow>
          add_items tmpList (if length ipValue > 0 then allowedIPs @ [ipValue] else allowedIPs))"

definition buildAllowedIPs :: "string \<Rightarrow> built" where
  "buildAllowedIPs allowedIPstr =
     (if length allowedIPstr > 0
      then
        (if CHR '','' \<in> set allowedIPstr
         then add_items (split_on CHR '','' allowedIPstr) []
         else
           (case ip_search (remove_spaces allowedIPstr) of
              None \<Rightarrow> Returned False []
            | Some ipValue \<Rightarrow> Returned True (if length ipValue > 0 then [ipValue] else [])))
      else Returned True [])"

text \<open>
  The main program: it exits with 1 when the settings path or file is not there, calls
  \<^verbatim>\<open>buildAllowedIPs(args.allowedips)\<close> as a statement, dropping what it returns, and
  runs the server, which exits with 1 when the port cannot be bound and otherwise
  serves with the allow-list that was built.
\<close>

datatype run = Exited nat | Serving "string list"

definition main :: "bool \<Rightarrow> bool \<Rightarrow> string \<Rightarrow> run" where
  "main settings_found port_free allowedips =
     (if \<not> settings_found then Exited 1
      else
        (case buildAllowedIPs allowedips of
           Exit n \<Rightarrow> Exited n
         | Returned ok allowedIPs \<Rightarrow> if port_free then Serving allowedIPs else Exited 1))"

section \<open>A reference instance of the builtins\<close>

text \<open>
  For running the model on concrete requests and feeds: readers of plain decimal
  text, and the stamps of a host whose local zone is UTC. \<open>std_float\<close> reads an
  optional sign followed by digits with an optional fraction, or by nan, inf or
  infinity in any case; \<open>std_int\<close> reads an optional sign followed by digits. On these
  texts Python reads the same value (for a fraction, the double nearest to it). Every
  other text is rejected here; Python rejects it too unless it is one of the further
  forms it accepts (an exponent, blanks around the number, underscores between digits),
  which no request or row below uses.
\<close>

fun digits_val :: "string \<Rightarrow> nat \<Rightarrow> nat" where
  "digits_val [] acc = acc"
| "digits_val (c # cs) acc = digits_val cs (10 * acc + (of_char c - 48))"

definition lower_char :: "char \<Rightarrow> char" where
  "lower_char c = (let n = (of_char c :: nat) in if 65 \<le> n \<and> n \<le> 90 then char_of (n + 32) else c)"

definition split_sign :: "string \<Rightarrow> bool \<times> string" where
  "split_sign s =
     (case s of
        [] \<Rightarrow> (False, [])
      | c # cs \<Rightarrow> if c = CHR ''-'' then (True, cs) else if c = CHR ''+'' then (False, cs) else (False, s))"

definition std_int :: "string \<Rightarrow> int option" where
  "std_int s =
     (case split_sign s of
        (neg, body) \<Rightarrow>
          if body \<noteq> [] \<and> list_all is_digit body
          then Some (if neg then - int (digits_val body 0) else int (digits_val body 0))
          else None)"

definition signed :: "bool \<Rightarrow> real \<Rightarrow> real" where
  "signed neg r = (if neg then - r else r)"

definition std_float :: "string \<Rightarrow> pyfloat option" where
  "std_float s =
     (case split_sign s of
        (neg, body) \<Rightarrow>
          let low = map lower_char body;
              ip = takeWhile is_digit body;
              rest = dropWhile is_digit body
          in if low = ''nan'' then Some NaN
             else if low = ''inf'' \<or> low = ''infinity'' then Some (if neg then NInf else PInf)
             else if rest = [] then
               (if ip = [] then None else Some (Fin (signed neg (real (digits_val ip 0)))))
             else if hd rest = CHR ''.'' \<and> list_all is_digit (tl rest) \<and> \<not> (ip = [] \<and> tl rest = [])
               then Some (Fin (signed neg (real (digits_val (ip @ tl rest) 0) / 10 ^ length (tl rest))))
             else None)"

text \<open>The civil date of a day number counted from 1970-01-01.\<close>

definition civil_from_days :: "int \<Rightarrow> int \<times> int \<times> int" where
  "civil_from_days days =
     (let z = days + 719468;
          era = z div 146097;
          doe = z - era * 146097;
          yoe = (doe - doe div 1460 + doe div 36524 - doe div 146096) div 365;
          doy = doe - (365 * yoe + yoe div 4 - yoe div 100);
          mp = (5 * doy + 2) div 153;
          d = doy - (153 * mp + 2) div 5 + 1;
          m = (if mp < 10 then mp + 3 else mp - 9);
          y = yoe + era * 400 + (if m \<le> 2 then 1 else 0)
      in (y, m, d))"

definition pad2 :: "int \<Rightarrow> string" where
  "pad2 n = (if n < 10 then CHR ''0'' # str_nat (nat n) else str_nat (nat n))"

text \<open>
  \<^verbatim>\<open>strftime('%Y-%m-%d %H:%M:%S')\<close> of the UTC instant \<open>ms\<close> milliseconds after the
  epoch, with Z after it, and the same instant with the zone name after it. Outside
  the years 1 to 9999 the library raises: ValueError while the year fits the C
  \<^verbatim>\<open>struct tm\<close>, OSError beyond that, OverflowError once the seconds no longer fit a
  64-bit \<^verbatim>\<open>time_t\<close>.
\<close>

definition std_timestamps :: "int \<Rightarrow> pyerr + (string \<times> string)" where
  "std_timestamps ms =
     (let secs = ms div 1000;
          sod = secs mod 86400
      in case civil_from_days (secs div 86400) of
           (y, m, d) \<Rightarrow>
             if secs < - (2 ^ 63) \<or> 2 ^ 63 \<le> secs then Inl OverflowError
             else if y - 1900 < - (2 ^ 31) \<or> 2 ^ 31 \<le> y - 1900 then Inl OSError
             else if y < 1 \<or> 9999 < y then Inl ValueError
             else
               let stamp = str_nat (nat y) @ ''-'' @ pad2 m @ ''-'' @ pad2 d @ '' '' @
                           pad2 (sod div 3600) @ '':'' @ pad2 (sod mod 3600 div 60) @ '':'' @
                           pad2 (sod mod 60)
               in Inr (stamp @ ''Z'', stamp @ '' UTC''))"

text \<open>
  A request passes the checks that stand before the dispatch when it has a client
  address, the allow-list is empty or holds that address, \<^verbatim>\<open>urlparse\<close> succeeds, and the
  path is more than slashes and dots (so that it is not redirected).
\<close>

definition admitted :: "string list \<Rightarrow> request \<Rightarrow> bool" where
  "admitted allowedIPs s =
     (client_address s \<noteq> [] \<and>
      (allowedIPs = [] \<or> hd (client_address s) \<in> set allowedIPs) \<and>
      (case url s of
         None \<Rightarrow> False
       | Some (req_path, query) \<Rightarrow> dropWhile (\<lambda>c. c = CHR ''/'' \<or> c = CHR ''.'') req_path \<noteq> []))"

text \<open>The parameters of a request: \<^verbatim>\<open>param_data_to_dict(req.query)\<close>.\<close>

definition params :: "request \<Rightarrow> (string \<rightharpoonup> qval)" where
  "params s = (case url s of None \<Rightarrow> Map.empty | Some (req_path, query) \<Rightarrow> param_data_to_dict query)"

text \<open>A well-formed row of the feed: thirteen base fields, four reserved ones and 360
  powers.\<close>

definition sample_head :: "string list" where
  "sample_head =
     [''1700000000000'', ''224.0'', ''3.14'', ''-45.2'', ''433920000'', ''UCA'', ''120'',
      ''KRAKEN1'', ''51.5'', ''-0.12'', ''90.0'', ''85.5'', ''GPS'', ''R'', ''R'', ''R'', ''R'']"

definition sample_row :: "string list" where
  "sample_row = sample_head @ replicate 360 ''-70.5''"

text \<open>The same row with a first power that is not a number, and the same row cut
  before the Compass Heading position.\<close>

definition bad_power_row :: "string list" where
  "bad_power_row = sample_head @ ''n/a'' # replicate 359 ''-70.5''"

definition short_row :: "string list" where
  "short_row = take 11 sample_head"

text \<open>The sample row with an empty text at the Compass Heading position.\<close>

definition blank_compass_row :: "string list" where
  "blank_compass_row = sample_head[11 := []] @ replicate 360 ''-70.5''"

definition std :: builtins where
  "std = \<lparr>float_str = std_float, int_str = std_int, timestamps = std_timestamps\<rparr>"

section \<open>Routing\<close>

text \<open>An admitted request whose path matches reaches the branch of its operation.\<close>

lemma route_set_frequency:
  assumes "admitted allowedIPs s" and "prefix ''/api/krakensdr/set_frequency'' (path s)"
  shows "do_GET B allowedIPs feed s st = api_set_frequency B (params s) st"
  using assms
  by (auto simp: admitted_def do_GET_def params_def prefix_def Let_def split: option.splits)

lemma route_get_doa:
  assumes "admitted allowedIPs s" and "path s = ''/api/krakensdr/get_doa''"
  shows "do_GET B allowedIPs feed s st = api_get_doa B feed st"
  using assms
  by (auto simp: admitted_def do_GET_def params_def prefix_def Let_def split: option.splits)

lemma route_set_output_vfo:
  assumes "admitted allowedIPs s" and "prefix ''/api/krakensdr/set_output_vfo'' (path s)"
  shows "do_GET B allowedIPs feed s st = api_set_output_vfo B (params s) st"
  using assms
  by (auto simp: admitted_def do_GET_def params_def prefix_def Let_def split: option.splits)

lemma route_set_vfo_bandwidth:
  assumes "admitted allowedIPs s" and "prefix ''/api/krakensdr/set_vfo_bandwidth'' (path s)"
  shows "do_GET B allowedIPs feed s st = api_set_vfo_bandwidth B (params s) st"
  using assms
  by (auto simp: admitted_def do_GET_def params_def prefix_def Let_def split: option.splits)

lemma route_set_coordinates:
  assumes "admitted allowedIPs s" and "prefix ''/api/krakensdr/set_coordinates'' (path s)"
  shows "do_GET B allowedIPs feed s st = api_set_coordinates B (params s) st"
  using assms
  by (auto simp: admitted_def do_GET_def params_def prefix_def Let_def split: option.splits)

section \<open>The settings store: staging and committing\<close>

lemma update_value_stage:
  "staged st = None \<Longrightarrow> disk st = Some d \<Longrightarrow>
   update_value k v False st = (None, st\<lparr>staged := Some (d(k \<mapsto> v))\<rparr>)"
  by (simp add: update_value_def get_config_def Let_def)

lemma update_value_commit_staged:
  "staged st = Some sd \<Longrightarrow> writable st \<Longrightarrow>
   update_value k v True st =
     (None, st\<lparr>disk := Some (sd(k \<mapsto> v)), staged := None,
               written := written st @ [sd(k \<mapsto> v)]\<rparr>)"
  by (simp add: update_value_def save_config_def Let_def)

lemma update_value_commit_fresh:
  "staged st = None \<Longrightarrow> disk st = Some d \<Longrightarrow> writable st \<Longrightarrow>
   update_value k v True st =
     (None, st\<lparr>disk := Some (d(k \<mapsto> v)), written := written st @ [d(k \<mapsto> v)]\<rparr>)"
  by (simp add: update_value_def get_config_def save_config_def Let_def)

lemma in_range:
  "24 \<le> f \<Longrightarrow> f \<le> 1766 \<Longrightarrow> \<not> (py_lt (Fin f) (Fin 24) \<or> py_gt (Fin f) (Fin 1766))"
  by (simp add: py_gt_def)

text \<open>Evaluations of the reference readers used by the concrete requests below.\<close>

lemma std_float_100: "std_float ''100'' = Some (Fin 100)"
  by (simp add: std_float_def split_sign_def lower_char_def is_digit_def signed_def)

lemma std_float_20_7: "std_float ''20.7'' = Some (Fin 20.7)"
  by (simp add: std_float_def split_sign_def lower_char_def is_digit_def signed_def)

lemma unwrap_100: "unwrap [''100''] = QStr ''100''"
  by (simp add: unwrap_def upper_def upper_char_def)

lemma unwrap_20_7: "unwrap [''20.7''] = QStr ''20.7''"
  by (simp add: unwrap_def upper_def upper_char_def)

lemma gain_20_7: "py_in (Fin 20.7) valid_gains"
  by (simp add: py_in_def valid_gains_def py_eq_def)

section \<open>set\_frequency with a gain: one write (C6)\<close>

lemma api_set_frequency_with_gain:
  assumes "param_data ''freq'' = Some fv" "to_float B fv = Inr (Fin f)" "24 \<le> f" "f \<le> 1766"
    and "param_data ''gain'' = Some gv" "to_float B gv = Inr g" "py_in g valid_gains"
    and "staged st = None" "disk st = Some d" "writable st"
  shows "api_set_frequency B param_data st =
     (Json 0 NoPayload,
      st\<lparr>disk := Some (d(''center_freq'' \<mapsto> JFloat (Fin f), ''uniform_gain'' \<mapsto> JFloat g)),
         written := written st @
           [d(''center_freq'' \<mapsto> JFloat (Fin f), ''uniform_gain'' \<mapsto> JFloat g)]\<rparr>)"
proof -
  let ?st1 = "st\<lparr>staged := Some (d(''center_freq'' \<mapsto> JFloat (Fin f)))\<rparr>"
  let ?doc = "d(''center_freq'' \<mapsto> JFloat (Fin f), ''uniform_gain'' \<mapsto> JFloat g)"
  have s1: "set_frequency (Fin f) False st = (None, ?st1)"
    using assms(8,9) by (simp add: set_frequency_def update_value_stage)
  have s2: "set_gain g True ?st1 =
     (None, ?st1\<lparr>disk := Some ?doc, staged := None, written := written ?st1 @ [?doc]\<rparr>)"
    using assms(7,10) by (simp add: set_gain_def update_value_commit_staged)
  show ?thesis
    using assms(1-6,8) in_range[OF assms(3,4)] s1 s2
    by (simp add: api_set_frequency_def reply3_def)
qed

text \<open>
  C6. A set\_frequency request that is admitted, whose freq reads as a number between
  24.0 and 1766.0 and whose gain reads as a member of the gain table, answers errcode 0
  and writes the settings document exactly once: with nothing staged before, a readable
  document \<open>d\<close> and a writable file, the list of written documents grows by the one
  document \<open>d\<close> with center\_freq set to the frequency and uniform\_gain set to the gain,
  which is also what the file then holds; nothing stays staged.
\<close>

theorem set_frequency_with_gain_one_write:
  assumes "admitted allowedIPs s" "prefix ''/api/krakensdr/set_frequency'' (path s)"
    and "params s ''freq'' = Some fv" "to_float B fv = Inr (Fin f)" "24 \<le> f" "f \<le> 1766"
    and "params s ''gain'' = Some gv" "to_float B gv = Inr g" "py_in g valid_gains"
    and "staged st = None" "disk st = Some d" "writable st"
  shows "do_GET B allowedIPs feed s st =
     (Json 0 NoPayload,
      st\<lparr>disk := Some (d(''center_freq'' \<mapsto> JFloat (Fin f), ''uniform_gain'' \<mapsto> JFloat g)),
         written := written st @
           [d(''center_freq'' \<mapsto> JFloat (Fin f), ''uniform_gain'' \<mapsto> JFloat g)]\<rparr>)"
  using route_set_frequency[OF assms(1,2)] api_set_frequency_with_gain[OF assms(3-12)] by simp

theorem set_frequency_with_gain_one_write_witness:
  "do_GET std [] RequestFailed
     \<lparr>client_address = [''192.168.1.20'', ''51234''],
      path = ''/api/krakensdr/set_frequency?freq=100&gain=20.7'',
      url = Some (''/api/krakensdr/set_frequency'',
                  [''freq'' \<mapsto> [''100''], ''gain'' \<mapsto> [''20.7'']])\<rparr>
     \<lparr>disk = Some [''center_freq'' \<mapsto> JFloat (Fin 416.588)], staged = None, written = [],
      writable = True\<rparr>
   = (Json 0 NoPayload,
      \<lparr>disk = Some [''center_freq'' \<mapsto> JFloat (Fin 100), ''uniform_gain'' \<mapsto> JFloat (Fin 20.7)],
       staged = None,
       written = [[''center_freq'' \<mapsto> JFloat (Fin 100), ''uniform_gain'' \<mapsto> JFloat (Fin 20.7)]],
       writable = True\<rparr>)"
  using set_frequency_with_gain_one_write[of "[]"
      "\<lparr>client_address = [''192.168.1.20'', ''51234''],
        path = ''/api/krakensdr/set_frequency?freq=100&gain=20.7'',
        url = Some (''/api/krakensdr/set_frequency'',
                    [''freq'' \<mapsto> [''100''], ''gain'' \<mapsto> [''20.7'']])\<rparr>"
      "QStr ''100''" std 100 "QStr ''20.7''" "Fin 20.7"
      "\<lparr>disk = Some [''center_freq'' \<mapsto> JFloat (Fin 416.588)], staged = None, written = [],
        writable = True\<rparr>"
      "[''center_freq'' \<mapsto> JFloat (Fin 416.588)]" RequestFailed]
  by (simp add: admitted_def params_def param_data_to_dict_def unwrap_100 unwrap_20_7 std_def
        std_float_100 std_float_20_7 gain_20_7)

section \<open>set\_frequency with a gain outside the table: the frequency stays staged (C10)\<close>








section \<open>set\_frequency without a gain: the range test (C7)\<close>

text \<open>For a frequency that is a number, the branch does what the range says: it
  commits and answers 0 inside 24.0 to 1766.0, and answers 1 with the state untouched
  outside.\<close>

lemma api_set_frequency_in_range:
  assumes "param_data ''freq'' = Some fv" "to_float B fv = Inr (Fin f)" "24 \<le> f" "f \<le> 1766"
    and "param_data ''gain'' = None" "staged st = None" "disk st = Some d" "writable st"
  shows "api_set_frequency B param_data st =
     (Json 0 NoPayload,
      st\<lparr>disk := Some (d(''center_freq'' \<mapsto> JFloat (Fin f))),
         written := written st @ [d(''center_freq'' \<mapsto> JFloat (Fin f))]\<rparr>)"
  using assms(1,2,5) in_range[OF assms(3,4)] update_value_commit_fresh[OF assms(6-8)]
  by (simp add: api_set_frequency_def reply3_def set_frequency_def)

lemma api_set_frequency_out_of_range:
  assumes "param_data ''freq'' = Some fv" "to_float B fv = Inr x"
    and "x = PInf \<or> x = NInf \<or> (\<exists>f. x = Fin f \<and> (f < 24 \<or> 1766 < f))"
  shows "api_set_frequency B param_data st = (Json 1 NoPayload, st)"
  using assms by (auto simp: api_set_frequency_def py_gt_def)

lemma std_float_nan: "std_float ''nan'' = Some NaN"
  by (simp add: std_float_def split_sign_def lower_char_def)

lemma unwrap_nan: "unwrap [''nan''] = QStr ''nan''"
  by (simp add: unwrap_def upper_def upper_char_def)

text \<open>
  C7, at the input where the code leaves the claim. The text nan reads as the float
  not-a-number; both comparisons of the range test are false for it, so the request
  is accepted: errcode 0, and not-a-number is written as center\_freq, although it is
  not a value between 24.0 and 1766.0.
\<close>

theorem set_frequency_accepts_nan:
  "do_GET std [] RequestFailed
     \<lparr>client_address = [''192.168.1.20'', ''51234''],
      path = ''/api/krakensdr/set_frequency?freq=nan'',
      url = Some (''/api/krakensdr/set_frequency'', [''freq'' \<mapsto> [''nan'']])\<rparr>
     \<lparr>disk = Some [''center_freq'' \<mapsto> JFloat (Fin 416.588)], staged = None, written = [],
      writable = True\<rparr>
   = (Json 0 NoPayload,
      \<lparr>disk = Some [''center_freq'' \<mapsto> JFloat NaN], staged = None,
       written = [[''center_freq'' \<mapsto> JFloat NaN]], writable = True\<rparr>)"
proof -
  let ?s = "\<lparr>client_address = [''192.168.1.20'', ''51234''],
      path = ''/api/krakensdr/set_frequency?freq=nan'',
      url = Some (''/api/krakensdr/set_frequency'', [''freq'' \<mapsto> [''nan'']])\<rparr>"
  have "admitted [] ?s" by (simp add: admitted_def)
  moreover have "prefix ''/api/krakensdr/set_frequency'' (path ?s)" by simp
  ultimately have "do_GET std [] RequestFailed ?s st = api_set_frequency std (params ?s) st" for st
    by (rule route_set_frequency)
  then show ?thesis
    by (simp add: api_set_frequency_def params_def param_data_to_dict_def unwrap_nan std_def
          std_float_nan py_gt_def reply3_def set_frequency_def update_value_def get_config_def
          save_config_def Let_def)
qed

section \<open>set\_output\_vfo (C3)\<close>

text \<open>
  C3, as the code has it. The handler calls \<^verbatim>\<open>set_output_vfo\<close> with the index alone,
  the method needs two arguments, so every request whose vfo\_index reads as an integer
  answers errcode 3 and leaves the settings as they were: nothing is committed.
\<close>

theorem set_output_vfo_never_commits:
  assumes "admitted allowedIPs s" "prefix ''/api/krakensdr/set_output_vfo'' (path s)"
    and "params s ''vfo_index'' = Some iv" "to_int B iv = Inr index"
  shows "do_GET B allowedIPs feed s st = (Json 3 NoPayload, st)"
  using route_set_output_vfo[OF assms(1,2)] assms(3,4)
  by (simp add: api_set_output_vfo_def call_set_output_vfo_def reply3_def)

lemma std_int_2: "std_int ''2'' = Some 2"
  by (simp add: std_int_def split_sign_def is_digit_def)

lemma unwrap_2: "unwrap [''2''] = QStr ''2''"
  by (simp add: unwrap_def upper_def upper_char_def)

theorem set_output_vfo_never_commits_witness:
  "do_GET std [] RequestFailed
     \<lparr>client_address = [''192.168.1.20'', ''51234''],
      path = ''/api/krakensdr/set_output_vfo?vfo_index=2'',
      url = Some (''/api/krakensdr/set_output_vfo'', [''vfo_index'' \<mapsto> [''2'']])\<rparr>
     \<lparr>disk = Some [''output_vfo'' \<mapsto> JInt 0], staged = None, written = [], writable = True\<rparr>
   = (Json 3 NoPayload,
      \<lparr>disk = Some [''output_vfo'' \<mapsto> JInt 0], staged = None, written = [], writable = True\<rparr>)"
  using set_output_vfo_never_commits[of "[]"
      "\<lparr>client_address = [''192.168.1.20'', ''51234''],
        path = ''/api/krakensdr/set_output_vfo?vfo_index=2'',
        url = Some (''/api/krakensdr/set_output_vfo'', [''vfo_index'' \<mapsto> [''2'']])\<rparr>"
      "QStr ''2''" std 2 RequestFailed
      "\<lparr>disk = Some [''output_vfo'' \<mapsto> JInt 0], staged = None, written = [], writable = True\<rparr>"]
  by (simp add: admitted_def params_def param_data_to_dict_def unwrap_2 std_def std_int_2)

text \<open>The method itself, called with both arguments, commits the index.\<close>

lemma set_output_vfo_commits:
  assumes "staged st = None" "disk st = Some d" "writable st"
  shows "call_set_output_vfo [JInt index, JInt index] st =
     (None, st\<lparr>disk := Some (d(''output_vfo'' \<mapsto> JInt index)),
               written := written st @ [d(''output_vfo'' \<mapsto> JInt index)]\<rparr>)"
  using update_value_commit_fresh[OF assms]
  by (simp add: call_set_output_vfo_def set_output_vfo_def)

section \<open>set\_vfo\_bandwidth (C4)\<close>

text \<open>
  C4, as the code has it. With numeric vfo\_index and vfo\_bw the request is never
  accepted: a bandwidth equal to zero or above 2.4e6 answers errcode 1, every other one
  (negative ones and not-a-number too) reaches the call that reads the unbound
  \<^verbatim>\<open>freq\<close> and answers errcode 3. The settings stay as they were.
\<close>

theorem set_vfo_bandwidth_never_commits:
  assumes "admitted allowedIPs s" "prefix ''/api/krakensdr/set_vfo_bandwidth'' (path s)"
    and "params s ''vfo_index'' = Some iv" "to_int B iv = Inr index"
    and "params s ''vfo_bw'' = Some bv" "to_float B bv = Inr bw"
  shows "do_GET B allowedIPs feed s st =
     (Json (if py_eq bw (Fin 0) \<or> py_gt bw (Fin 2400000) then 1 else 3) NoPayload, st)"
  using route_set_vfo_bandwidth[OF assms(1,2)] assms(3-6)
  by (simp add: api_set_vfo_bandwidth_def load_local_def Let_def)

lemma std_float_12500: "std_float ''12500'' = Some (Fin 12500)"
  by (simp add: std_float_def split_sign_def lower_char_def is_digit_def signed_def)

lemma unwrap_12500: "unwrap [''12500''] = QStr ''12500''"
  by (simp add: unwrap_def upper_def upper_char_def)

theorem set_vfo_bandwidth_never_commits_witness:
  "do_GET std [] RequestFailed
     \<lparr>client_address = [''192.168.1.20'', ''51234''],
      path = ''/api/krakensdr/set_vfo_bandwidth?vfo_index=2&vfo_bw=12500'',
      url = Some (''/api/krakensdr/set_vfo_bandwidth'',
                  [''vfo_index'' \<mapsto> [''2''], ''vfo_bw'' \<mapsto> [''12500'']])\<rparr>
     \<lparr>disk = Some [''vfo_bw_2'' \<mapsto> JFloat (Fin 25000)], staged = None, written = [],
      writable = True\<rparr>
   = (Json 3 NoPayload,
      \<lparr>disk = Some [''vfo_bw_2'' \<mapsto> JFloat (Fin 25000)], staged = None, written = [],
       writable = True\<rparr>)"
  using set_vfo_bandwidth_never_commits[of "[]"
      "\<lparr>client_address = [''192.168.1.20'', ''51234''],
        path = ''/api/krakensdr/set_vfo_bandwidth?vfo_index=2&vfo_bw=12500'',
        url = Some (''/api/krakensdr/set_vfo_bandwidth'',
                    [''vfo_index'' \<mapsto> [''2''], ''vfo_bw'' \<mapsto> [''12500'']])\<rparr>"
      "QStr ''2''" std 2 "QStr ''12500''" "Fin 12500" RequestFailed
      "\<lparr>disk = Some [''vfo_bw_2'' \<mapsto> JFloat (Fin 25000)], staged = None, written = [],
        writable = True\<rparr>"]
  by (simp add: admitted_def params_def param_data_to_dict_def unwrap_2 unwrap_12500 std_def
        std_int_2 std_float_12500 py_eq_def py_gt_def)

text \<open>The setter itself, given the parsed bandwidth, commits it under the key of
  the VFO.\<close>

lemma set_vfo_bandwidth_commits:
  assumes "staged st = None" "disk st = Some d" "writable st"
  shows "set_vfo_bandwidth index bw True st =
     (None, st\<lparr>disk := Some (d(''vfo_bw_'' @ str_int index \<mapsto> JFloat bw)),
               written := written st @ [d(''vfo_bw_'' @ str_int index \<mapsto> JFloat bw)]\<rparr>)"
  using update_value_commit_fresh[OF assms] by (simp add: set_vfo_bandwidth_def)

section \<open>set\_coordinates (C2)\<close>

text \<open>The method itself, given the parameters, commits what it is given: here with
  latitude and longitude alone.\<close>

lemma set_coordinates_commits:
  assumes "coordinates ''latitude'' = Some la" "to_float B la = Inr x"
    and "coordinates ''longitude'' = Some lo" "to_float B lo = Inr y"
    and "coordinates ''heading'' = None" "coordinates ''location_source'' = None"
    and "coordinates ''gps_fixed_heading'' = None" "coordinates ''gps_min_speed'' = None"
    and "coordinates ''gps_min_speed_duration'' = None"
    and "disk st = Some d" "writable st"
  shows "set_coordinates B coordinates st =
     (None, st\<lparr>disk := Some (d(''latitude'' \<mapsto> JFloat x, ''longitude'' \<mapsto> JFloat y)),
               written := written st @ [d(''latitude'' \<mapsto> JFloat x, ''longitude'' \<mapsto> JFloat y)]\<rparr>)"
  using assms
  by (simp add: set_coordinates_def get_config_def coordinate_fields_def then_e_def
        set_required_def set_optional_def float_j_def save_config_def)

lemma unwrap_lat: "unwrap [''51.5''] = QStr ''51.5''"
  by (simp add: unwrap_def upper_def upper_char_def)

lemma unwrap_lon: "unwrap [''-0.12''] = QStr ''-0.12''"
  by (simp add: unwrap_def upper_def upper_char_def)

text \<open>
  C2, as the code has it. The handler reads the local variable \<^verbatim>\<open>index\<close>, which no
  statement on this path has assigned, before it can call \<^verbatim>\<open>set_coordinates\<close>. So
  every request that supplies latitude and longitude answers errcode 3 and leaves the
  settings as they were: no coordinate field is committed.
\<close>

theorem set_coordinates_never_commits:
  assumes "admitted allowedIPs s" "prefix ''/api/krakensdr/set_coordinates'' (path s)"
    and "params s ''latitude'' = Some la" "params s ''longitude'' = Some lo"
  shows "do_GET B allowedIPs feed s st = (Json 3 NoPayload, st)"
  using route_set_coordinates[OF assms(1,2)] assms(3,4)
  by (simp add: api_set_coordinates_def load_local_def Let_def)

theorem set_coordinates_never_commits_witness:
  "do_GET std [] RequestFailed
     \<lparr>client_address = [''192.168.1.20'', ''51234''],
      path = ''/api/krakensdr/set_coordinates?latitude=51.5&longitude=-0.12'',
      url = Some (''/api/krakensdr/set_coordinates'',
                  [''latitude'' \<mapsto> [''51.5''], ''longitude'' \<mapsto> [''-0.12'']])\<rparr>
     \<lparr>disk = Some [''latitude'' \<mapsto> JFloat (Fin 0)], staged = None, written = [],
      writable = True\<rparr>
   = (Json 3 NoPayload,
      \<lparr>disk = Some [''latitude'' \<mapsto> JFloat (Fin 0)], staged = None, written = [],
       writable = True\<rparr>)"
  using set_coordinates_never_commits[of "[]"
      "\<lparr>client_address = [''192.168.1.20'', ''51234''],
        path = ''/api/krakensdr/set_coordinates?latitude=51.5&longitude=-0.12'',
        url = Some (''/api/krakensdr/set_coordinates'',
                    [''latitude'' \<mapsto> [''51.5''], ''longitude'' \<mapsto> [''-0.12'']])\<rparr>"
      "QStr ''51.5''" "QStr ''-0.12''" std RequestFailed
      "\<lparr>disk = Some [''latitude'' \<mapsto> JFloat (Fin 0)], staged = None, written = [],
        writable = True\<rparr>"]
  by (simp add: admitted_def params_def param_data_to_dict_def unwrap_lat unwrap_lon)

section \<open>get\_doa (C1)\<close>

text \<open>With at least one record the answer is errcode 0 and the first record; an
  exception that leaves the parser is answered with errcode 1.\<close>

lemma get_doa_first_record:
  assumes "admitted allowedIPs s" "path s = ''/api/krakensdr/get_doa''"
    and "fetch_and_process_csv B feed = Inr (first # others)"
  shows "do_GET B allowedIPs feed s st = (Json 0 (DoaInfo (Some first)), st)"
  using route_get_doa[OF assms(1,2)] assms(3) by (simp add: api_get_doa_def)

lemma get_doa_parser_raises:
  assumes "admitted allowedIPs s" "path s = ''/api/krakensdr/get_doa''"
    and "fetch_and_process_csv B feed = Inl e"
  shows "do_GET B allowedIPs feed s st = (Json 1 NoPayload, st)"
  using route_get_doa[OF assms(1,2)] assms(3) by (simp add: api_get_doa_def)

lemma fetch_request_failed: "fetch_and_process_csv B RequestFailed = Inr []"
  by (simp add: fetch_and_process_csv_def)

lemma fetch_empty_body: "fetch_and_process_csv B (Body []) = Inr []"
  by (simp add: fetch_and_process_csv_def)

text \<open>
  C1, as the code has it. When the feed yields no record (the GET failed, or the body
  had no usable row) the parser returns the empty list, which is not \<^verbatim>\<open>None\<close>; the
  handler then takes its first element, and the IndexError is answered by the last
  handler of \<^verbatim>\<open>do_GET\<close> with the error envelope of errcode 5, not with errcode 0 and
  a null doa\_info.
\<close>

theorem get_doa_empty_feed_is_error:
  assumes "admitted allowedIPs s" "path s = ''/api/krakensdr/get_doa''"
    and "fetch_and_process_csv B feed = Inr []"
  shows "do_GET B allowedIPs feed s st = (Json 5 NoPayload, st)"
  using route_get_doa[OF assms(1,2)] assms(3) by (simp add: api_get_doa_def)

theorem get_doa_empty_feed_is_error_witness:
  "do_GET std [] RequestFailed
     \<lparr>client_address = [''127.0.0.1'', ''51234''], path = ''/api/krakensdr/get_doa'',
      url = Some (''/api/krakensdr/get_doa'', Map.empty)\<rparr>
     \<lparr>disk = Some Map.empty, staged = None, written = [], writable = True\<rparr>
   = (Json 5 NoPayload, \<lparr>disk = Some Map.empty, staged = None, written = [], writable = True\<rparr>)"
  using get_doa_empty_feed_is_error[of "[]"
      "\<lparr>client_address = [''127.0.0.1'', ''51234''], path = ''/api/krakensdr/get_doa'',
        url = Some (''/api/krakensdr/get_doa'', Map.empty)\<rparr>"
      std RequestFailed
      "\<lparr>disk = Some Map.empty, staged = None, written = [], writable = True\<rparr>"]
  by (simp add: admitted_def fetch_request_failed)

section \<open>The allow-list at startup (C9)\<close>

text \<open>Whatever the request, the handler answers with 403 only through the
  allow-list test, which an empty allow-list never applies.\<close>

lemma reply3_not_html: "fst (reply3 r) \<noteq> Html n"
  by (cases r) (auto simp: reply3_def split: option.splits)

lemma api_get_config_not_html: "fst (api_get_config st) \<noteq> Html n"
  by (simp add: api_get_config_def split: sum.splits)

lemma api_set_frequency_not_html: "fst (api_set_frequency B p st) \<noteq> Html n"
  by (simp add: api_set_frequency_def reply3_not_html split: option.splits sum.splits prod.splits)

lemma api_get_doa_not_html: "fst (api_get_doa B feed st) \<noteq> Html n"
  by (simp add: api_get_doa_def split: sum.splits list.splits)

lemma api_set_frequency_and_vfo_not_html: "fst (api_set_frequency_and_vfo B p st) \<noteq> Html n"
  by (simp add: api_set_frequency_and_vfo_def reply3_not_html
        split: option.splits sum.splits prod.splits)

lemma api_set_gain_not_html: "fst (api_set_gain B p st) \<noteq> Html n"
  by (simp add: api_set_gain_def reply3_not_html split: option.splits sum.splits)

lemma api_set_output_vfo_not_html: "fst (api_set_output_vfo B p st) \<noteq> Html n"
  by (simp add: api_set_output_vfo_def reply3_not_html split: option.splits sum.splits)

lemma api_en_optimize_short_bursts_not_html: "fst (api_en_optimize_short_bursts p st) \<noteq> Html n"
  by (simp add: api_en_optimize_short_bursts_def reply3_not_html split: option.splits)

lemma api_set_vfo_frequency_not_html: "fst (api_set_vfo_frequency B p st) \<noteq> Html n"
  by (simp add: api_set_vfo_frequency_def reply3_not_html split: option.splits sum.splits)

lemma api_set_vfo_bandwidth_not_html: "fst (api_set_vfo_bandwidth B p st) \<noteq> Html n"
  by (simp add: api_set_vfo_bandwidth_def load_local_def split: option.splits sum.splits)

lemma api_set_coordinates_not_html: "fst (api_set_coordinates B p st) \<noteq> Html n"
  by (simp add: api_set_coordinates_def load_local_def)

lemmas api_not_html =
  api_get_config_not_html api_set_frequency_not_html api_get_doa_not_html
  api_set_frequency_and_vfo_not_html api_set_gain_not_html api_set_output_vfo_not_html
  api_en_optimize_short_bursts_not_html api_set_vfo_frequency_not_html
  api_set_vfo_bandwidth_not_html api_set_coordinates_not_html

lemma empty_allow_list_admits_all: "fst (do_GET B [] feed s st) \<noteq> Html 403"
  by (simp add: do_GET_def Let_def api_not_html split: option.splits)

text \<open>A list with a comma and a malformed entry does exit with 3.\<close>

lemma malformed_entry_of_a_list_exits: "main True True ''10.0.0.5,foo'' = Exited 3"
  by code_simp

text \<open>
  C9, as the code has it. For a non-empty --allowedips text without a comma in which
  the pattern finds no address, \<^verbatim>\<open>buildAllowedIPs\<close> returns \<^verbatim>\<open>False\<close> with an empty
  list and the main program, which drops that result, goes on: with the settings found
  and the port free it serves with the empty allow-list, which admits every client
  (no request is answered with 403). The process does not exit with 3.
\<close>

theorem malformed_single_entry_serves_allow_all:
  assumes "allowedIPstr \<noteq> []" "CHR '','' \<notin> set allowedIPstr"
    and "ip_search (remove_spaces allowedIPstr) = None"
  shows "buildAllowedIPs allowedIPstr = Returned False [] \<and>
         main True True allowedIPstr = Serving [] \<and>
         fst (do_GET B [] feed s st) \<noteq> Html 403"
  using assms empty_allow_list_admits_all[of B feed s st]
  by (simp add: buildAllowedIPs_def main_def)

theorem malformed_single_entry_serves_allow_all_witness:
  "buildAllowedIPs ''10.0.0'' = Returned False [] \<and>
   main True True ''10.0.0'' = Serving [] \<and>
   fst (do_GET std [] RequestFailed
     \<lparr>client_address = [''203.0.113.9'', ''40000''], path = ''/api/krakensdr/get_config'',
      url = Some (''/api/krakensdr/get_config'', Map.empty)\<rparr>
     \<lparr>disk = Some Map.empty, staged = None, written = [], writable = True\<rparr>) \<noteq> Html 403"
proof -
  have "ip_search (remove_spaces ''10.0.0'') = None" by code_simp
  then show ?thesis
    using malformed_single_entry_serves_allow_all[of "''10.0.0''" std RequestFailed
      "\<lparr>client_address = [''203.0.113.9'', ''40000''], path = ''/api/krakensdr/get_config'',
        url = Some (''/api/krakensdr/get_config'', Map.empty)\<rparr>"
      "\<lparr>disk = Some Map.empty, staged = None, written = [], writable = True\<rparr>"]
    by simp
qed

section \<open>The feed parser: rows\<close>

lemma n_base: "length base_fields = 13" by (simp add: base_fields_def)
lemma n_reserved: "length reserved_fields = 4" by (simp add: reserved_fields_def)
lemma n_doa: "length doa_fields = 360" by (simp add: doa_fields_def)
lemma n_fields: "length row_fields = 377" by (simp add: row_fields_def n_base n_reserved n_doa)

lemma idx13: "[0..<13] = [0,1,2,3,4,5,6,7,8,9,10,11,12::nat]" by code_simp

lemma base_data_of_eq:
  "base_data_of row = map_of
     [(''Epoch Time'', JStr (row ! 0)), (''Max DOA Angle (Degrees)'', JStr (row ! 1)),
      (''Confidence Value'', JStr (row ! 2)), (''RSSI Power (dB)'', JStr (row ! 3)),
      (''Channel Frequency (Hz)'', JStr (row ! 4)), (''Antenna Arrangement'', JStr (row ! 5)),
      (''Latency (ms)'', JStr (row ! 6)), (''Station ID'', JStr (row ! 7)),
      (''Latitude'', JStr (row ! 8)), (''Longitude'', JStr (row ! 9)),
      (''GPS Heading'', JStr (row ! 10)), (''Compass Heading'', JStr (row ! 11)),
      (''Main Heading Sensor Used'', JStr (row ! 12))]"
  by (simp add: base_data_of_def n_base idx13 row_fields_def nth_append)
     (simp add: base_fields_def)

lemma base_data_compass: "base_data_of row ''Compass Heading'' = Some (JStr (row ! 11))"
  by (simp add: base_data_of_eq)

lemma then_e_InrD: "then_e r f = Inr y \<Longrightarrow> \<exists>x. r = Inr x \<and> f x = Inr y"
  by (cases r) (simp_all add: then_e_def)

lemma float_field_keeps:
  "float_field B k m = Inr m' \<Longrightarrow> k' \<noteq> k \<Longrightarrow> m' k' = m k'"
  by (auto simp: float_field_def then_e_def text_of_def split: sum.splits option.splits jval.splits)

lemma epoch_fields_keeps:
  "epoch_fields B m = Inr m' \<Longrightarrow> k' \<noteq> ''Epoch Time'' \<Longrightarrow> k' \<noteq> ''utc_timestamp'' \<Longrightarrow>
   k' \<noteq> ''local_timestamp'' \<Longrightarrow> m' k' = m k'"
  by (auto simp: epoch_fields_def then_e_def text_of_def
      split: sum.splits option.splits jval.splits prod.splits)

lemma compass_field_result:
  "compass_field B m = Inr m' \<Longrightarrow> m ''Compass Heading'' = Some (JStr s) \<Longrightarrow>
   \<exists>f. float_str B s = Some f \<and> m' ''Compass Heading'' = Some (JFloat f)"
  by (auto simp: compass_field_def then_e_def split: option.splits)

lemma convert_fields_compass:
  assumes "convert_fields B m = Inr bd" "m ''Compass Heading'' = Some (JStr s)"
  shows "\<exists>f. float_str B s = Some f \<and> bd ''Compass Heading'' = Some (JFloat f)"
proof -
  from assms(1) obtain d0 d1 d2 d3 d4 d5 d6 d7 d8 where
    e: "epoch_fields B m = Inr d0"
    and f1: "float_field B ''Max DOA Angle (Degrees)'' d0 = Inr d1"
    and f2: "float_field B ''Confidence Value'' d1 = Inr d2"
    and f3: "float_field B ''RSSI Power (dB)'' d2 = Inr d3"
    and f4: "float_field B ''Channel Frequency (Hz)'' d3 = Inr d4"
    and f5: "float_field B ''Latency (ms)'' d4 = Inr d5"
    and f6: "float_field B ''Latitude'' d5 = Inr d6"
    and f7: "float_field B ''Longitude'' d6 = Inr d7"
    and f8: "float_field B ''GPS Heading'' d7 = Inr d8"
    and c: "compass_field B d8 = Inr bd"
    unfolding convert_fields_def by (blast dest!: then_e_InrD)
  have "d8 ''Compass Heading'' = m ''Compass Heading''"
    using epoch_fields_keeps[OF e, of "''Compass Heading''"]
      float_field_keeps[OF f1, of "''Compass Heading''"]
      float_field_keeps[OF f2, of "''Compass Heading''"]
      float_field_keeps[OF f3, of "''Compass Heading''"]
      float_field_keeps[OF f4, of "''Compass Heading''"]
      float_field_keeps[OF f5, of "''Compass Heading''"]
      float_field_keeps[OF f6, of "''Compass Heading''"]
      float_field_keeps[OF f7, of "''Compass Heading''"]
      float_field_keeps[OF f8, of "''Compass Heading''"]
    by simp
  with assms(2) c show ?thesis by (auto dest: compass_field_result)
qed
lemma n_prefix: "length base_fields + length reserved_fields + degree = 17 + degree"
  by (simp add: n_base n_reserved)

lemma short_row_skipped: "length row < 377 \<Longrightarrow> process_row B row = Skipped"
  by (simp add: process_row_def n_fields)

lemma process_row_AppendedD:
  "process_row B row = Appended d \<Longrightarrow>
   377 \<le> length row \<and>
   (\<exists>bd out. convert_fields B (base_data_of row) = Inr bd \<and>
      doa_entries B row [0..<360] = Inr out \<and> d = bd(''DOA Output'' \<mapsto> JObj out))"
  by (auto simp: process_row_def n_fields Let_def split: if_splits sum.splits pyerr.splits)

lemma doa_entries_all_parse:
  assumes "\<forall>d \<in> set ds. 17 + d < length row \<and> float_str B (row ! (17 + d)) = Some (g d)"
  shows "doa_entries B row ds = Inr (map (\<lambda>d. (str_nat d, JFloat (g d))) ds)"
  using assms by (induction ds) (simp_all add: n_prefix)

lemma doa_entries_bad:
  assumes "degree \<in> set ds" "\<forall>d \<in> set ds. 17 + d < length row"
    and "float_str B (row ! (17 + degree)) = None"
  shows "doa_entries B row ds = Inl ValueError"
  using assms
proof (induction ds)
  case Nil
  then show ?case by simp
next
  case (Cons d ds)
  show ?case
  proof (cases "float_str B (row ! (17 + d))")
    case None
    with Cons.prems(2) show ?thesis by (simp add: n_prefix)
  next
    case (Some f)
    with Cons.prems(1,3) have "degree \<in> set ds" by auto
    with Cons.IH Cons.prems(2,3) have "doa_entries B row ds = Inl ValueError" by simp
    with Some Cons.prems(2) show ?thesis by (simp add: n_prefix)
  qed
qed

text \<open>The parts of the parser that fail softly: a failed request and a CSV error give
  the empty list, and a row with a base field that does not convert is skipped while
  the rows after it are still processed.\<close>

lemma fetch_bad_csv: "fetch_and_process_csv B (Body (BadCsv # rest)) = Inr []"
  by (simp add: fetch_and_process_csv_def)

lemma base_value_error_skips_row:
  assumes "377 \<le> length row" "convert_fields B (base_data_of row) = Inl ValueError"
  shows "process_rows B (Row row # rest) rows = process_rows B rest rows"
  using assms by (simp add: process_row_def n_fields)

text \<open>The sample rows under the reference builtins.\<close>

lemma n_sample_head: "length sample_head = 17"
  by (simp add: sample_head_def)

lemmas std_eval = std_float_def std_int_def split_sign_def lower_char_def is_digit_def signed_def

lemma std_timestamps_sample:
  "std_timestamps 1700000000000 = Inr (''2023-11-14 22:13:20Z'', ''2023-11-14 22:13:20 UTC'')"
  by code_simp

lemma base_data_of_sample:
  "base_data_of (sample_head @ powers) = map_of
     [(''Epoch Time'', JStr ''1700000000000''), (''Max DOA Angle (Degrees)'', JStr ''224.0''),
      (''Confidence Value'', JStr ''3.14''), (''RSSI Power (dB)'', JStr ''-45.2''),
      (''Channel Frequency (Hz)'', JStr ''433920000''), (''Antenna Arrangement'', JStr ''UCA''),
      (''Latency (ms)'', JStr ''120''), (''Station ID'', JStr ''KRAKEN1''),
      (''Latitude'', JStr ''51.5''), (''Longitude'', JStr ''-0.12''),
      (''GPS Heading'', JStr ''90.0''), (''Compass Heading'', JStr ''85.5''),
      (''Main Heading Sensor Used'', JStr ''GPS'')]"
  by (simp add: base_data_of_eq nth_append n_sample_head) (simp add: sample_head_def)

lemma convert_fields_sample:
  "\<exists>bd. convert_fields std (base_data_of (sample_head @ powers)) = Inr bd"
  by (simp add: base_data_of_sample convert_fields_def then_e_def epoch_fields_def text_of_def
        float_field_def compass_field_def std_def std_eval std_timestamps_sample)

lemma std_float_power: "std_float ''-70.5'' = Some (Fin (- 70.5))"
  by (simp add: std_eval)

lemma std_float_not_a_number: "std_float ''n/a'' = None"
  by (simp add: std_eval)

lemma std_float_empty: "std_float [] = None"
  by (simp add: std_eval)

lemma doa_entries_sample:
  "doa_entries std sample_row [0..<360] =
     Inr (map (\<lambda>d. (str_nat d, JFloat (Fin (- 70.5)))) [0..<360])"
  by (rule doa_entries_all_parse)
     (simp add: sample_row_def nth_append n_sample_head std_def std_float_power)

lemma process_row_sample: "\<exists>d. process_row std sample_row = Appended d"
proof -
  from convert_fields_sample[of "replicate 360 ''-70.5''"]
  obtain bd where "convert_fields std (base_data_of sample_row) = Inr bd"
    by (auto simp: sample_row_def)
  then show ?thesis
    by (simp add: process_row_def n_fields Let_def doa_entries_sample)
       (simp add: sample_row_def n_sample_head)
qed

lemma process_row_blank_compass: "process_row std blank_compass_row = Skipped"
proof -
  have len: "length blank_compass_row = 377"
    by (simp add: blank_compass_row_def n_sample_head)
  have "convert_fields std (base_data_of blank_compass_row) = Inl ValueError"
    by (simp add: base_data_of_eq blank_compass_row_def nth_append n_sample_head)
       (simp add: sample_head_def convert_fields_def then_e_def epoch_fields_def text_of_def
          float_field_def compass_field_def std_def std_eval std_timestamps_sample)
  then show ?thesis by (simp add: process_row_def n_fields len)
qed
section \<open>A power that is not a number (C5)\<close>

lemma process_row_bad_power:
  assumes "377 \<le> length row" "convert_fields B (base_data_of row) = Inr bd"
    and "degree < 360" "float_str B (row ! (17 + degree)) = None"
  shows "process_row B row = Raised ValueError"
proof -
  have "doa_entries B row [0..<360] = Inl ValueError"
    using assms(1,3,4) by (intro doa_entries_bad[of degree]) auto
  with assms(1,2) show ?thesis by (simp add: process_row_def n_fields)
qed

text \<open>
  C5, at the rows where the code leaves the claim. The 360 powers are converted after
  the inner \<^verbatim>\<open>try\<close>, so when a row has its 377 columns and base fields that convert,
  and one of its powers does not read as a float, the ValueError is not caught there;
  the handlers around the loop catch request and CSV errors only. The exception
  leaves \<^verbatim>\<open>fetch_and_process_csv\<close>: the row is not skipped, and the rows before and
  after it are lost with it.
\<close>

theorem bad_power_raises_to_caller:
  assumes "377 \<le> length row" "convert_fields B (base_data_of row) = Inr bd"
    and "degree < 360" "float_str B (row ! (17 + degree)) = None"
  shows "process_rows B (Row row # rest) rows = Inl ValueError \<and>
         fetch_and_process_csv B (Body (Row row # rest)) = Inl ValueError"
  using process_row_bad_power[OF assms] by (simp add: fetch_and_process_csv_def)

theorem bad_power_raises_to_caller_witness:
  "process_rows std [Row bad_power_row, Row sample_row] [] = Inl ValueError \<and>
   fetch_and_process_csv std (Body [Row bad_power_row, Row sample_row]) = Inl ValueError"
proof -
  from convert_fields_sample[of "''n/a'' # replicate 359 ''-70.5''"]
  obtain bd where c: "convert_fields std (base_data_of bad_power_row) = Inr bd"
    by (auto simp: bad_power_row_def)
  have l: "377 \<le> length bad_power_row"
    by (simp add: bad_power_row_def n_sample_head)
  have p: "float_str std (bad_power_row ! (17 + 0)) = None"
    by (simp add: bad_power_row_def nth_append n_sample_head std_def std_float_not_a_number)
  show ?thesis
    using bad_power_raises_to_caller[OF l c _ p, of "[Row sample_row]" "[]"] by simp
qed

section \<open>The compass heading of a record (C8)\<close>

text \<open>A row that is appended has its 377 columns, and the compass heading of its record
  is the float read from its twelfth column.\<close>

lemma process_row_compass:
  assumes "process_row B row = Appended d"
  shows "377 \<le> length row \<and>
         (\<exists>f. float_str B (row ! 11) = Some f \<and> d ''Compass Heading'' = Some (JFloat f))"
proof -
  from process_row_AppendedD[OF assms] obtain bd out where
    l: "377 \<le> length row" and c: "convert_fields B (base_data_of row) = Inr bd"
    and d: "d = bd(''DOA Output'' \<mapsto> JObj out)"
    by blast
  from convert_fields_compass[OF c base_data_compass]
  obtain f where "float_str B (row ! 11) = Some f" "bd ''Compass Heading'' = Some (JFloat f)"
    by blast
  with l d show ?thesis by simp
qed

text \<open>The list the loop returns holds the records it started with and, for the rows of
  the feed, the records that were appended for them: nothing else.\<close>

lemma process_rows_records:
  assumes "process_rows B items acc = Inr rows" "d \<in> set rows"
  shows "d \<in> set acc \<or> (\<exists>row. Row row \<in> set items \<and> process_row B row = Appended d)"
  using assms
proof (induction items arbitrary: acc)
  case Nil
  then show ?case by simp
next
  case (Cons item items)
  show ?case
  proof (cases item)
    case BadCsv
    with Cons.prems show ?thesis by simp
  next
    case (Row r)
    show ?thesis
    proof (cases "process_row B r")
      case Skipped
      with Row Cons.prems have "process_rows B items acc = Inr rows" by simp
      from Cons.IH[OF this Cons.prems(2)] show ?thesis by auto
    next
      case (Appended d')
      with Row Cons.prems have "process_rows B items (acc @ [d']) = Inr rows" by simp
      from Cons.IH[OF this Cons.prems(2)] Appended Row show ?thesis by auto
    next
      case (Raised e)
      with Row Cons.prems show ?thesis by simp
    qed
  qed
qed

lemma fetch_records:
  assumes "fetch_and_process_csv B (Body items) = Inr rows" "d \<in> set rows"
  shows "\<exists>row. Row row \<in> set items \<and> process_row B row = Appended d"
proof (cases "process_rows B items []")
  case (Inl e)
  with assms show ?thesis
    by (cases e) (auto simp: fetch_and_process_csv_def)
next
  case (Inr rs)
  with assms have "process_rows B items [] = Inr rows"
    by (simp add: fetch_and_process_csv_def)
  from process_rows_records[OF this assms(2)] show ?thesis by simp
qed

text \<open>The two sample rows without a compass heading, run through the parser: neither
  gives a record.\<close>

lemma missing_compass_row_is_dropped:
  "process_row std short_row = Skipped \<and>
   fetch_and_process_csv std (Body [Row short_row]) = Inr [] \<and>
   process_row std blank_compass_row = Skipped \<and>
   fetch_and_process_csv std (Body [Row blank_compass_row]) = Inr []"
proof -
  have "process_row std short_row = Skipped"
    by (rule short_row_skipped) (simp add: short_row_def n_sample_head)
  then show ?thesis
    by (simp add: fetch_and_process_csv_def process_row_blank_compass)
qed

text \<open>
  C8, as the code has it. Every record in the list that \<^verbatim>\<open>fetch_and_process_csv\<close>
  returns was appended for a row of the feed that has at least 377 columns and whose
  twelfth column reads as a float, and that float is the record's compass heading. A
  row in which the Compass Heading is missing therefore gives no record, where the
  claim promises one with the not-a-number sentinel: with an empty text at the
  position, \<^verbatim>\<open>float('')\<close> is a ValueError that skips the row, and the default of
  \<^verbatim>\<open>base_data.get("Compass Heading", "NaN")\<close> is never used, since the comprehension
  has bound the key for every row; cut before the position, the row is too short and
  skipped. The sentinel appears only when the text itself reads as not-a-number.
\<close>

theorem records_take_compass_from_rows:
  assumes "fetch_and_process_csv B (Body items) = Inr rows" "d \<in> set rows"
  shows "\<exists>row f. Row row \<in> set items \<and> 377 \<le> length row \<and>
           process_row B row = Appended d \<and>
           float_str B (row ! 11) = Some f \<and> d ''Compass Heading'' = Some (JFloat f)"
proof -
  from fetch_records[OF assms] obtain row where
    r: "Row row \<in> set items" "process_row B row = Appended d"
    by blast
  from process_row_compass[OF r(2)] r show ?thesis by blast
qed

theorem records_take_compass_from_rows_witness:
  "\<exists>d. fetch_and_process_csv std (Body [Row short_row, Row blank_compass_row, Row sample_row])
          = Inr [d] \<and>
        d ''Compass Heading'' = Some (JFloat (Fin 85.5))"
proof -
  let ?items = "[Row short_row, Row blank_compass_row, Row sample_row]"
  from process_row_sample obtain d where a: "process_row std sample_row = Appended d"
    by blast
  have s: "process_row std short_row = Skipped"
    by (rule short_row_skipped) (simp add: short_row_def n_sample_head)
  have f: "fetch_and_process_csv std (Body ?items) = Inr [d]"
    using a s by (simp add: fetch_and_process_csv_def process_row_blank_compass)
  from records_take_compass_from_rows[OF f, of d] obtain row x where
    r: "Row row \<in> set ?items" "377 \<le> length row" "float_str std (row ! 11) = Some x"
      "d ''Compass Heading'' = Some (JFloat x)"
    by auto
  have short: "\<not> 377 \<le> length short_row"
    by (simp add: short_row_def n_sample_head)
  have blank: "float_str std (blank_compass_row ! 11) = None"
    by (simp add: blank_compass_row_def nth_append n_sample_head)
       (simp add: sample_head_def std_def std_float_empty)
  have "sample_row ! 11 = ''85.5''"
    by (simp add: sample_row_def nth_append n_sample_head) (simp add: sample_head_def)
  then have sample: "float_str std (sample_row ! 11) = Some (Fin 85.5)"
    by (simp add: std_def std_eval)
  from r(1) have "row = short_row \<or> row = blank_compass_row \<or> row = sample_row" by simp
  with r(2,3) short blank sample have "x = Fin 85.5" by auto
  with f r(4) show ?thesis by blast
qed

end
